theory Spec2Isabelle
  imports Complex_Main "HOL-Library.Word" "HOL-Library.Char_ord" "HOL-Library.List_Lexorder"
begin

unbundle bit_operations_syntax

section \<open>Sample Rescaler (rawtools/convert.py, \<open>scale\<close>)\<close>

text \<open>
  \<^verbatim>\<open>def scale(x, a, b, c, d): return (x - a) / (b - a) * (d - c) + c\<close>

  The Python function is written for any numeric operand (a scalar or a numpy array, on
  which the operators act element by element).  The model is the same expression over any
  type with the four operators; the operators associate as in Python, left to right.
\<close>

definition scale :: "'a::{plus,minus,times,inverse} \<Rightarrow> 'a \<Rightarrow> 'a \<Rightarrow> 'a \<Rightarrow> 'a \<Rightarrow> 'a" where
  "scale x a b c d = (x - a) / (b - a) * (d - c) + c"

section \<open>Floating-point samples\<close>

text \<open>
  A float sample is NaN, an infinity or a finite value.  Finite values are kept as the real
  number they denote; the two zeros are not distinguished.  Comparisons follow IEEE 754:
  every ordered comparison with NaN is false.
\<close>

datatype flt = NaN | NInf | Fin real | PInf

fun flt_less :: "flt \<Rightarrow> flt \<Rightarrow> bool" where
  "flt_less NaN _ = False"
| "flt_less _ NaN = False"
| "flt_less NInf NInf = False"
| "flt_less NInf _ = True"
| "flt_less (Fin x) (Fin y) = (x < y)"
| "flt_less (Fin x) PInf = True"
| "flt_less (Fin x) NInf = False"
| "flt_less PInf _ = False"

definition isnan :: "flt \<Rightarrow> bool" where
  "isnan x = (x = NaN)"

fun is_finite :: "flt \<Rightarrow> bool" where
  "is_finite (Fin x) = True"
| "is_finite _ = False"

fun fval :: "flt \<Rightarrow> real" where
  "fval (Fin x) = x"
| "fval _ = 0"

text \<open>
  numpy's \<open>minimum\<close> and \<open>maximum\<close> loops return
  \<^verbatim>\<open>(in1 < in2 || isnan(in1)) ? in1 : in2\<close> and
  \<^verbatim>\<open>(in1 >= in2 || isnan(in1)) ? in1 : in2\<close>; \<open>ndarray.min\<close> and
  \<open>ndarray.max\<close> reduce the array with them from the left and raise ValueError on an
  array without elements.
\<close>

datatype error =
    FileNotFoundError | ValueError | TypeError | UnboundLocalError | NameError
  | MetadataError | UnknownEncoding | SystemExit nat

definition np_minimum :: "flt \<Rightarrow> flt \<Rightarrow> flt" where
  "np_minimum in1 in2 = (if flt_less in1 in2 \<or> isnan in1 then in1 else in2)"

definition np_maximum :: "flt \<Rightarrow> flt \<Rightarrow> flt" where
  "np_maximum in1 in2 = (if flt_less in2 in1 \<or> in1 = in2 \<or> isnan in1 then in1 else in2)"

definition amin :: "flt list \<Rightarrow> error + flt" where
  "amin xs = (case xs of [] \<Rightarrow> Inl ValueError | x # r \<Rightarrow> Inr (foldl np_minimum x r))"

definition amax :: "flt list \<Rightarrow> error + flt" where
  "amax xs = (case xs of [] \<Rightarrow> Inl ValueError | x # r \<Rightarrow> Inr (foldl np_maximum x r))"

text \<open>
  \<open>np.finfo('float32').max\<close> is \<open>(2 - 2\<^sup>-\<^sup>2\<^sup>3) * 2\<^sup>1\<^sup>2\<^sup>7\<close>, and \<open>.min\<close> is its negation.
\<close>

definition F32_MAX :: real where
  "F32_MAX = (2 ^ 24 - 1) * 2 ^ 104"

section \<open>Bytes and their decoding\<close>

type_synonym byte = "8 word"

text \<open>
  \<open>np.frombuffer(buffer, dtype='float32')\<close> on a little-endian machine: four bytes make one
  IEEE 754 binary32 value (1 sign bit, 8 exponent bits \<open>e\<close>, 23 fraction bits \<open>m\<close>;
  \<open>f32_magnitude\<close> is the absolute value of a subnormal or normal number).  A buffer whose
  length is not a multiple of the item size raises ValueError.
\<close>

definition f32_magnitude :: "nat \<Rightarrow> nat \<Rightarrow> real" where
  "f32_magnitude e m =
     (if e = 0 then real m / 2 ^ 149
      else if 150 \<le> e then real ((2 ^ 23 + m) * 2 ^ (e - 150))
      else real (2 ^ 23 + m) / 2 ^ (150 - e))"

definition decode_f32 :: "byte \<Rightarrow> byte \<Rightarrow> byte \<Rightarrow> byte \<Rightarrow> flt" where
  "decode_f32 b0 b1 b2 b3 =
     (let n = unat b0 + 256 * unat b1 + 65536 * unat b2 + 16777216 * unat b3;
          negative = (n div 2 ^ 31 = 1);
          e = (n div 2 ^ 23) mod 256;
          m = n mod 2 ^ 23
      in if e = 255 then (if m = 0 then (if negative then NInf else PInf) else NaN)
         else Fin (if negative then - f32_magnitude e m else f32_magnitude e m))"

fun f32_items :: "byte list \<Rightarrow> flt list" where
  "f32_items (b0 # b1 # b2 # b3 # r) = decode_f32 b0 b1 b2 b3 # f32_items r"
| "f32_items _ = []"

definition frombuffer_f32 :: "byte list \<Rightarrow> error + flt list" where
  "frombuffer_f32 buffer =
     (if length buffer mod 4 \<noteq> 0 then Inl ValueError else Inr (f32_items buffer))"

section \<open>Files\<close>

text \<open>
  The file system is a map from paths to files.  A volume (\<open>.raw\<close>) or slice
  (\<open>.nsidat\<close>) file is its bytes.  The text side files are kept in parsed form, since
  their grammar belongs to modules outside this development: a DAT descriptor, a project
  header, and the range record written after slice assembly.  Opening a path that holds
  no byte file as a volume is reported like a missing file.
\<close>

type_synonym path = string

record dat =
  xdim :: nat
  ydim :: nat
  zdim :: nat
  x_thickness :: real
  y_thickness :: real
  z_thickness :: real
  format :: string
  model :: string

record nsihdr =
  nsidats :: "string list"
  hdr_bit_depth :: nat
  hdr_dimensions :: "nat \<times> nat \<times> nat"
  hdr_resolution :: real
  hdr_data_range :: "(real \<times> real) option"

datatype entry =
    Raw "byte list"
  | Dat dat
  | Hdr nsihdr
  | RangeRecord "flt option" "flt option"

type_synonym fs = "path \<rightharpoonup> entry"

section \<open>Range Scanner (rawtools/convert.py, \<open>find_float_range\<close>)\<close>

text \<open>
  The loop of \<open>find_float_range\<close>: \<open>ifp.read(buffer_size)\<close> returns the next
  \<open>buffer_size\<close> bytes (fewer at the end of the file, none once it is exhausted or when
  \<open>buffer_size\<close> is 0), and the loop runs while the buffer is not empty.  \<open>rest\<close> is the
  unread part of the file.
\<close>

function range_loop :: "nat \<Rightarrow> byte list \<Rightarrow> flt \<Rightarrow> flt \<Rightarrow> error + (flt \<times> flt)" where
  "range_loop buffer_size rest minimum maximum =
     (let buffer = take buffer_size rest in
      if buffer = [] then Inr (minimum, maximum)
      else case frombuffer_f32 buffer of
             Inl e \<Rightarrow> Inl e
           | Inr chunk \<Rightarrow>
               (case amin chunk of
                  Inl e \<Rightarrow> Inl e
                | Inr cmin \<Rightarrow>
                    (case amax chunk of
                       Inl e \<Rightarrow> Inl e
                     | Inr cmax \<Rightarrow>
                         range_loop buffer_size (drop buffer_size rest)
                           (if flt_less cmin minimum then cmin else minimum)
                           (if flt_less maximum cmax then cmax else maximum))))"
  by pat_completeness auto
termination
  by (relation "measure (\<lambda>(n, rest, mn, mx). length rest)") auto

declare range_loop.simps [simp del]

text \<open>
  \<^verbatim>\<open>if buffer_size is None: buffer_size = os.path.getsize(fp) // 100\<close>
\<close>

definition default_buffer_size :: "nat \<Rightarrow> nat" where
  "default_buffer_size size_in_bytes = size_in_bytes div 100"

text \<open>
  \<open>find_float_range(fp, dtype='float32', buffer_size=None)\<close>, at its default
  \<open>dtype\<close>, the one \<open>convert\<close> calls it with.  The running minimum starts at the
  largest float32 and the running maximum at the smallest.
\<close>

definition find_float_range :: "fs \<Rightarrow> path \<Rightarrow> nat option \<Rightarrow> error + (flt \<times> flt)" where
  "find_float_range files fp buffer_size =
     (case files fp of
        Some (Raw bytes) \<Rightarrow>
          (let maximum = Fin (- F32_MAX);
               minimum = Fin F32_MAX;
               buffer_size = (case buffer_size of
                                None \<Rightarrow> default_buffer_size (length bytes)
                              | Some n \<Rightarrow> n)
           in range_loop buffer_size bytes minimum maximum)
      | _ \<Rightarrow> Inl FileNotFoundError)"


section \<open>Array arithmetic\<close>

text \<open>
  The operators that \<open>scale\<close> applies to array elements, on \<open>flt\<close>.  NaN and the
  infinities follow IEEE 754 (\<open>inf - inf\<close>, \<open>0 * inf\<close>, \<open>inf / inf\<close> and \<open>0 / 0\<close> are
  NaN, a non-zero finite value divided by zero is an infinity); on finite values the
  result is the exact one, so the rounding and the overflow of the machine formats are
  left out.
\<close>

fun flt_neg :: "flt \<Rightarrow> flt" where
  "flt_neg NaN = NaN"
| "flt_neg NInf = PInf"
| "flt_neg PInf = NInf"
| "flt_neg (Fin x) = Fin (- x)"

fun flt_add :: "flt \<Rightarrow> flt \<Rightarrow> flt" where
  "flt_add NaN _ = NaN"
| "flt_add _ NaN = NaN"
| "flt_add PInf NInf = NaN"
| "flt_add NInf PInf = NaN"
| "flt_add PInf _ = PInf"
| "flt_add _ PInf = PInf"
| "flt_add NInf _ = NInf"
| "flt_add _ NInf = NInf"
| "flt_add (Fin x) (Fin y) = Fin (x + y)"

fun flt_scale_inf :: "flt \<Rightarrow> real \<Rightarrow> flt" where
  "flt_scale_inf i s = (if s = 0 then NaN else if 0 < s then i else flt_neg i)"

fun flt_mul :: "flt \<Rightarrow> flt \<Rightarrow> flt" where
  "flt_mul NaN _ = NaN"
| "flt_mul _ NaN = NaN"
| "flt_mul (Fin x) (Fin y) = Fin (x * y)"
| "flt_mul (Fin x) i = flt_scale_inf i x"
| "flt_mul i (Fin y) = flt_scale_inf i y"
| "flt_mul PInf PInf = PInf"
| "flt_mul NInf NInf = PInf"
| "flt_mul PInf NInf = NInf"
| "flt_mul NInf PInf = NInf"

fun flt_div :: "flt \<Rightarrow> flt \<Rightarrow> flt" where
  "flt_div NaN _ = NaN"
| "flt_div _ NaN = NaN"
| "flt_div (Fin x) (Fin y) =
     (if y = 0 then (if x = 0 then NaN else if 0 < x then PInf else NInf) else Fin (x / y))"
| "flt_div (Fin x) _ = Fin 0"
| "flt_div i (Fin y) = (if 0 \<le> y then i else flt_neg i)"
| "flt_div _ _ = NaN"

instantiation flt :: "{plus, minus, times, inverse}"
begin

definition plus_flt :: "flt \<Rightarrow> flt \<Rightarrow> flt" where
  "plus_flt x y = flt_add x y"

definition minus_flt :: "flt \<Rightarrow> flt \<Rightarrow> flt" where
  "minus_flt x y = flt_add x (flt_neg y)"

definition times_flt :: "flt \<Rightarrow> flt \<Rightarrow> flt" where
  "times_flt x y = flt_mul x y"

definition divide_flt :: "flt \<Rightarrow> flt \<Rightarrow> flt" where
  "divide_flt x y = flt_div x y"

definition inverse_flt :: "flt \<Rightarrow> flt" where
  "inverse_flt x = flt_div (Fin 1) x"

instance ..

end

text \<open>
  \<open>ndarray.astype\<close> to an unsigned integer type of \<open>w\<close> bits is a C cast: the value
  is truncated toward zero.  C leaves the cast of a value outside the target range, of NaN
  and of an infinity undefined; the model takes what the conversion instruction of x86-64
  gives (the low \<open>w\<close> bits of the truncated value when it fits 32 bits, and 0 otherwise).
\<close>

definition truncate_toward_zero :: "real \<Rightarrow> int" where
  "truncate_toward_zero r = (if 0 \<le> r then \<lfloor>r\<rfloor> else \<lceil>r\<rceil>)"

fun astype_uint :: "nat \<Rightarrow> flt \<Rightarrow> nat" where
  "astype_uint w (Fin r) =
     (let t = truncate_toward_zero r
      in if - (2 ^ 31) \<le> t \<and> t < 2 ^ 31 then nat (t mod 2 ^ w) else 0)"
| "astype_uint w _ = 0"

text \<open>
  Item sizes, integer ranges, decoding (\<open>np.frombuffer\<close>) and encoding
  (\<open>ndarray.tofile\<close>) of the three sample encodings, little-endian.  \<open>np.dtype\<close> of
  another name is taken to raise TypeError.
\<close>

definition itemsize :: "string \<Rightarrow> error + nat" where
  "itemsize dtype =
     (if dtype = ''uint8'' then Inr 1
      else if dtype = ''uint16'' then Inr 2
      else if dtype = ''float32'' then Inr 4
      else Inl TypeError)"

definition iinfo_max :: "string \<Rightarrow> real" where
  "iinfo_max dtype = (if dtype = ''uint8'' then 255 else 65535)"

fun u16_items :: "byte list \<Rightarrow> nat list" where
  "u16_items (b0 # b1 # r) = (unat b0 + 256 * unat b1) # u16_items r"
| "u16_items _ = []"

definition frombuffer :: "string \<Rightarrow> byte list \<Rightarrow> error + flt list" where
  "frombuffer dtype buffer =
     (if dtype = ''uint8'' then Inr (map (\<lambda>b. Fin (real (unat b))) buffer)
      else if dtype = ''uint16'' then
        (if length buffer mod 2 \<noteq> 0 then Inl ValueError
         else Inr (map (\<lambda>v. Fin (real v)) (u16_items buffer)))
      else if dtype = ''float32'' then frombuffer_f32 buffer
      else Inl TypeError)"

definition tobytes_uint8 :: "nat \<Rightarrow> byte list" where
  "tobytes_uint8 v = [of_nat v]"

definition tobytes_uint16 :: "nat \<Rightarrow> byte list" where
  "tobytes_uint16 v = [of_nat (v mod 256), of_nat (v div 256)]"

section \<open>Paths\<close>

text \<open>
  \<open>os.path.splitext(p)[0]\<close> for POSIX paths: the extension starts at the last dot of
  the last path component, unless only dots precede it there.
\<close>

definition splitext_root :: "path \<Rightarrow> path" where
  "splitext_root p =
     (let base = rev (takeWhile (\<lambda>c. c \<noteq> CHR ''/'') (rev p));
          dir = take (length p - length base) p;
          dots = takeWhile (\<lambda>c. c = CHR ''.'') base;
          name = dropWhile (\<lambda>c. c = CHR ''.'') base
      in if CHR ''.'' \<in> set name
         then dir @ dots @ rev (tl (dropWhile (\<lambda>c. c \<noteq> CHR ''.'') (rev name)))
         else p)"

definition exists :: "fs \<Rightarrow> path \<Rightarrow> bool" where
  "exists files p = (files p \<noteq> None)"

section \<open>The metadata collaborators (rawtools/dat.py)\<close>

text \<open>
  Modelled from the spec: \<open>dat.read\<close>, \<open>dat.write\<close> and
  \<open>dat.determine_bit_depth\<close>, whose module is not among the sources.
  \<open>read(path)\<close> gives the volume descriptor and fails if the file is missing or
  unparsable; \<open>write(path, dimensions, thickness, sample_type, object_model)\<close> overwrites
  unconditionally; \<open>infer(volume_path, dimensions)\<close> derives the encoding from the file
  size divided by the voxel count and fails if the byte width is not that of a supported
  encoding.
\<close>

definition dat_read :: "fs \<Rightarrow> path \<Rightarrow> error + dat" where
  "dat_read files p = (case files p of Some (Dat d) \<Rightarrow> Inr d | _ \<Rightarrow> Inl MetadataError)"

definition dat_write ::
  "fs \<Rightarrow> path \<Rightarrow> nat \<times> nat \<times> nat \<Rightarrow> real \<times> real \<times> real \<Rightarrow> string \<Rightarrow> string \<Rightarrow> fs" where
  "dat_write files p dimensions thickness dtype object_model =
     (case (dimensions, thickness) of
        ((x, y, z), (tx, ty, tz)) \<Rightarrow>
          files(p \<mapsto> Dat \<lparr>xdim = x, ydim = y, zdim = z,
                           x_thickness = tx, y_thickness = ty, z_thickness = tz,
                           format = dtype, model = object_model\<rparr>))"

definition determine_bit_depth :: "fs \<Rightarrow> path \<Rightarrow> nat \<times> nat \<times> nat \<Rightarrow> error + string" where
  "determine_bit_depth files p dimensions =
     (case files p of
        Some (Raw bytes) \<Rightarrow>
          (case dimensions of
             (x, y, z) \<Rightarrow>
               (let voxels = x * y * z in
                if voxels = 0 then Inl UnknownEncoding
                else if length bytes = voxels then Inr ''uint8''
                else if length bytes = voxels * 2 then Inr ''uint16''
                else if length bytes = voxels * 4 then Inr ''float32''
                else Inl UnknownEncoding))
      | _ \<Rightarrow> Inl FileNotFoundError)"

section \<open>Volume Converter (rawtools/convert.py, \<open>convert\<close>)\<close>

text \<open>
  One pass of the conversion loop body:
  \<^verbatim>\<open>chunk = np.frombuffer(buffer, dtype=bit_depth)\<close>,
  \<^verbatim>\<open>sdf = scale(chunk, input_minimum, input_maximum, output_minimum, output_maximum).astype(file_format)\<close>,
  \<^verbatim>\<open>sdf.tofile(ofp)\<close>; the result is the bytes written.  For the target \<open>float32\<close>
  the bytes depend on the rounding and overflow of the machine formats: they are given by
  the parameter \<open>to_float32\<close>, a function of the source encoding and the buffer.
\<close>

definition convert_chunk ::
  "(string \<Rightarrow> byte list \<Rightarrow> byte list) \<Rightarrow> string \<Rightarrow> string \<Rightarrow> flt \<Rightarrow> flt \<Rightarrow> flt \<Rightarrow> flt
     \<Rightarrow> byte list \<Rightarrow> error + byte list" where
  "convert_chunk to_float32 bit_depth file_format input_minimum input_maximum
       output_minimum output_maximum buffer =
     (case frombuffer bit_depth buffer of
        Inl e \<Rightarrow> Inl e
      | Inr chunk \<Rightarrow>
          (let sdf = map (\<lambda>x. scale x input_minimum input_maximum output_minimum output_maximum)
                       chunk
           in if file_format = ''uint8'' then
                Inr (concat (map (\<lambda>v. tobytes_uint8 (astype_uint 8 v)) sdf))
              else if file_format = ''uint16'' then
                Inr (concat (map (\<lambda>v. tobytes_uint16 (astype_uint 16 v)) sdf))
              else Inr (to_float32 bit_depth buffer)))"

text \<open>
  The loop: read \<open>buffer_size\<close> bytes, convert and append them, until a read returns
  nothing.  \<open>rest\<close> is the unread part of the input and \<open>written\<close> what the output
  file holds so far; an exception leaves the output file with what was written before it.
\<close>

function convert_loop ::
  "(string \<Rightarrow> byte list \<Rightarrow> byte list) \<Rightarrow> string \<Rightarrow> string \<Rightarrow> flt \<Rightarrow> flt \<Rightarrow> flt \<Rightarrow> flt
     \<Rightarrow> nat \<Rightarrow> byte list \<Rightarrow> byte list \<Rightarrow> error option \<times> byte list" where
  "convert_loop to_float32 bit_depth file_format input_minimum input_maximum
       output_minimum output_maximum buffer_size rest written =
     (let buffer = take buffer_size rest in
      if buffer = [] then (None, written)
      else case convert_chunk to_float32 bit_depth file_format input_minimum input_maximum
                  output_minimum output_maximum buffer of
             Inl e \<Rightarrow> (Some e, written)
           | Inr out \<Rightarrow>
               convert_loop to_float32 bit_depth file_format input_minimum input_maximum
                 output_minimum output_maximum buffer_size (drop buffer_size rest)
                 (written @ out))"
  by pat_completeness auto
termination
  by (relation "measure (\<lambda>(k, bd, ff, a, b, c, d, n, rest, w). length rest)") auto

declare convert_loop.simps [simp del]

text \<open>
  \<open>convert\<close> returns \<open>None\<close> on every path that does not raise.  The model returns,
  with the new file system, which of the three paths was taken, as the INFO log line tells.
\<close>

datatype report = Skipping_already_desired_format | Skipping_file_already_exists | Converted

definition output_path :: "path \<Rightarrow> string \<Rightarrow> path" where
  "output_path fp file_format = splitext_root fp @ ''-'' @ file_format @ ''.raw''"

definition dat_output_path :: "path \<Rightarrow> string \<Rightarrow> path" where
  "dat_output_path dat_fp file_format = splitext_root dat_fp @ ''-'' @ file_format @ ''.dat''"

definition convert ::
  "(string \<Rightarrow> byte list \<Rightarrow> byte list) \<Rightarrow> fs \<Rightarrow> path \<Rightarrow> path \<Rightarrow> string
     \<Rightarrow> (error + report) \<times> fs" where
  "convert to_float32 files fp dat_fp file_format =
     (case dat_read files dat_fp of
        Inl e \<Rightarrow> (Inl e, files)
      | Inr d \<Rightarrow>
     (let x = xdim d; y = ydim d; z = zdim d in
      case determine_bit_depth files fp (x, y, z) of
        Inl e \<Rightarrow> (Inl e, files)
      | Inr bit_depth \<Rightarrow>
     if file_format = bit_depth then (Inr Skipping_already_desired_format, files)
     else
     (let op = output_path fp file_format in
      if exists files op then (Inr Skipping_file_already_exists, files)
      else
      case itemsize bit_depth of
        Inl e \<Rightarrow> (Inl e, files)
      | Inr width \<Rightarrow>
     (let buffer_size = x * y * width in
      case (if bit_depth \<in> set [''uint8'', ''uint16'']
            then Inr (Fin 0, Fin (iinfo_max bit_depth))
            else if bit_depth = ''float32''
            then find_float_range files fp (Some buffer_size)
            else Inl ValueError) of
        Inl e \<Rightarrow> (Inl e, files)
      | Inr (input_minimum, input_maximum) \<Rightarrow>
      case (if file_format \<in> set [''uint8'', ''uint16'']
            then Inr (Fin 0, Fin (iinfo_max file_format))
            else if file_format = ''float32''
            then Inr (Fin (- F32_MAX), Fin F32_MAX)
            else Inl ValueError) of
        Inl e \<Rightarrow> (Inl e, files)
      | Inr (output_minimum, output_maximum) \<Rightarrow>
      case files fp of
        Some (Raw bytes) \<Rightarrow>
          (case convert_loop to_float32 bit_depth file_format input_minimum input_maximum
                  output_minimum output_maximum buffer_size bytes [] of
             (Some e, written) \<Rightarrow> (Inl e, files(op \<mapsto> Raw written))
           | (None, written) \<Rightarrow>
               (let dat_op = dat_output_path dat_fp file_format
                in (Inr Converted,
                    dat_write (files(op \<mapsto> Raw written)) dat_op (x, y, z)
                      (x_thickness d, y_thickness d, z_thickness d) file_format (model d))))
      | _ \<Rightarrow> (Inl FileNotFoundError, files)))))"

section \<open>Slice Assembler (rawtools/nsihdr.py)\<close>

text \<open>
  \<open>os.path.basename\<close>, \<open>os.path.dirname\<close> and \<open>os.path.join\<close> for POSIX paths.
\<close>

definition basename :: "path \<Rightarrow> path" where
  "basename p = rev (takeWhile (\<lambda>c. c \<noteq> CHR ''/'') (rev p))"

definition dirname :: "path \<Rightarrow> path" where
  "dirname p =
     (let head = take (length p - length (basename p)) p
      in if head \<noteq> [] \<and> \<not> list_all (\<lambda>c. c = CHR ''/'') head
         then rev (dropWhile (\<lambda>c. c = CHR ''/'') (rev head))
         else head)"

definition path_join :: "path \<Rightarrow> path \<Rightarrow> path" where
  "path_join a b =
     (if b \<noteq> [] \<and> hd b = CHR ''/'' then b
      else if a = [] \<or> last a = CHR ''/'' then a @ b
      else a @ ''/'' @ b)"

definition isfile :: "fs \<Rightarrow> path \<Rightarrow> bool" where
  \<comment> \<open>the file system of the model holds files only, no directories\<close>
  "isfile files p = (files p \<noteq> None)"

text \<open>
  The module-level names \<open>INITIAL_LOWER_BOUND\<close>, \<open>INITIAL_UPPER_BOUND\<close>,
  \<open>TARGET_LOWER_BOUND\<close> and \<open>TARGET_UPPER_BOUND\<close>; \<open>None\<close> is Python's \<open>None\<close>,
  their value when the module is loaded.
\<close>

record globals =
  INITIAL_LOWER_BOUND :: "flt option"
  INITIAL_UPPER_BOUND :: "flt option"
  TARGET_LOWER_BOUND :: "flt option"
  TARGET_UPPER_BOUND :: "flt option"

definition module_globals :: globals where
  "module_globals = \<lparr>INITIAL_LOWER_BOUND = None, INITIAL_UPPER_BOUND = None,
                      TARGET_LOWER_BOUND = None, TARGET_UPPER_BOUND = None\<rparr>"

text \<open>The attributes of \<open>args\<close> and the keys of the metadata dictionary that are used
  (\<open>arg_\<close> and \<open>md_\<close> are put before their names).\<close>

record args =
  arg_files :: "path list"
  arg_force :: bool
  arg_cwd :: path
  arg_filename :: path
  arg_output :: path

record metadata =
  md_datafiles :: "string list"
  md_bit_depth :: nat
  md_dimensions :: "nat \<times> nat \<times> nat"
  md_resolution_rounded :: real

text \<open>
  \<open>read_nsihdr\<close>, with the regular-expression parsing of the header text left out: a
  header file holds the fields the patterns extract.  The slice file names are sorted, and
  a data range found in the header is stored in the two module-level input bounds (the
  function declares them \<open>global\<close>).
\<close>

definition read_nsihdr :: "globals \<Rightarrow> fs \<Rightarrow> path \<Rightarrow> error + (metadata \<times> globals)" where
  "read_nsihdr g files fp =
     (case files fp of
        None \<Rightarrow> Inl FileNotFoundError
      | Some (Hdr h) \<Rightarrow>
          Inr (\<lparr>md_datafiles = sort (nsidats h), md_bit_depth = hdr_bit_depth h,
                md_dimensions = hdr_dimensions h, md_resolution_rounded = hdr_resolution h\<rparr>,
               (case hdr_data_range h of
                  None \<Rightarrow> g
                | Some (lower_bound, upper_bound) \<Rightarrow>
                    g\<lparr>INITIAL_LOWER_BOUND := Some (Fin lower_bound),
                      INITIAL_UPPER_BOUND := Some (Fin upper_bound)\<rparr>))
      | Some _ \<Rightarrow> Inl MetadataError)"

text \<open>
  \<open>set_initial_bounds(metadata)\<close> reads \<open>args.cwd\<close> in its loop body, but \<open>args\<close>
  is neither a parameter nor a module-level name: the first iteration raises NameError.
\<close>

definition set_initial_bounds :: "globals \<Rightarrow> fs \<Rightarrow> metadata \<Rightarrow> error + globals" where
  "set_initial_bounds g files md = (if md_datafiles md = [] then Inr g else Inl NameError)"

text \<open>
  \<open>scale\<close> on an array with the four module-level bounds: an operand that is \<open>None\<close>
  makes one of the subtractions raise TypeError.
\<close>

definition scale_array ::
  "flt list \<Rightarrow> flt option \<Rightarrow> flt option \<Rightarrow> flt option \<Rightarrow> flt option \<Rightarrow> error + flt list" where
  "scale_array df a b c d =
     (case (a, b, c, d) of
        (Some a, Some b, Some c, Some d) \<Rightarrow> Inr (map (\<lambda>x. scale x a b c d) df)
      | _ \<Rightarrow> Inl TypeError)"

definition append_file :: "fs \<Rightarrow> path \<Rightarrow> byte list \<Rightarrow> fs" where
  \<comment> \<open>\<open>open(p, 'ab')\<close> and a write: the file is created if it is missing\<close>
  "append_file files p new =
     files(p \<mapsto> Raw ((case files p of Some (Raw old) \<Rightarrow> old | _ \<Rightarrow> []) @ new))"

text \<open>
  The loop of \<open>process\<close> over \<open>metadata['datafiles']\<close>: read the whole slice with
  \<open>np.fromfile(ifp, dtype='float32')\<close> (whole items only), rescale with the module-level
  bounds, cast to \<open>uint16\<close>, append to the output volume.
\<close>

fun process_loop :: "globals \<Rightarrow> fs \<Rightarrow> args \<Rightarrow> string list \<Rightarrow> error option \<times> fs" where
  "process_loop g files a [] = (None, files)"
| "process_loop g files a (f # rest) =
     (let input_filepath = path_join (arg_cwd a) f in
      case files input_filepath of
        Some (Raw bytes) \<Rightarrow>
          (let df = f32_items bytes in
           case scale_array df (INITIAL_LOWER_BOUND g) (INITIAL_UPPER_BOUND g)
                  (TARGET_LOWER_BOUND g) (TARGET_UPPER_BOUND g) of
             Inl e \<Rightarrow> (Some e, files)
           | Inr scaled \<Rightarrow>
               (let sdf = map (astype_uint 16) scaled
                in process_loop g
                     (append_file files (arg_output a) (concat (map tobytes_uint16 sdf))) a rest))
      | _ \<Rightarrow> (Some FileNotFoundError, files))"

text \<open>
  \<open>process(args, metadata)\<close>: an existing output file stops the run with
  \<open>sys.exit(0)\<close> unless \<open>args.force\<close> is set, in which case it is removed before the
  loop starts.
\<close>

definition process :: "globals \<Rightarrow> fs \<Rightarrow> args \<Rightarrow> metadata \<Rightarrow> error option \<times> fs" where
  "process g files a md =
     (if exists files (arg_output a) \<and> isfile files (arg_output a) then
        (if arg_force a = False then (Some (SystemExit 0), files)
         else process_loop g (files(arg_output a := None)) a (md_datafiles md))
      else process_loop g files a (md_datafiles md))"

text \<open>
  \<open>write_metadata(args, metadata)\<close>: the DAT file, through \<open>dat.write\<close> with its
  default sample type and object model (from the spec: the output type and a fixed tag),
  and the range record with the two module-level input bounds.
\<close>

definition write_metadata :: "globals \<Rightarrow> fs \<Rightarrow> args \<Rightarrow> metadata \<Rightarrow> fs" where
  "write_metadata g files a md =
     (let dat_filepath = splitext_root (arg_output a) @ ''.dat'';
          r = md_resolution_rounded md;
          files1 = dat_write files dat_filepath (md_dimensions md) (r, r, r) ''uint16'' ''DENSITY'';
          bounds_filepath = path_join (arg_cwd a) (splitext_root (arg_output a) @ ''.float32.range'')
      in files1(bounds_filepath \<mapsto> RangeRecord (INITIAL_LOWER_BOUND g) (INITIAL_UPPER_BOUND g)))"

text \<open>
  The names that \<open>main\<close> assigns are local to it, since \<open>main\<close> has no \<open>global\<close>
  declaration: the four bounds are assigned at the end of the loop body, and the two target
  bounds at its start as well.  A local name is unbound (\<open>None\<close> here) until its first
  assignment; reading it then raises UnboundLocalError.  \<open>Some None\<close> is the name bound
  to Python's \<open>None\<close>.
\<close>

record main_locals =
  local_INITIAL_LOWER_BOUND :: "flt option option"
  local_INITIAL_UPPER_BOUND :: "flt option option"
  local_TARGET_LOWER_BOUND :: "flt option option"
  local_TARGET_UPPER_BOUND :: "flt option option"

definition unbound_locals :: main_locals where
  "unbound_locals = \<lparr>local_INITIAL_LOWER_BOUND = None, local_INITIAL_UPPER_BOUND = None,
                       local_TARGET_LOWER_BOUND = None, local_TARGET_UPPER_BOUND = None\<rparr>"

text \<open>
  The test \<^verbatim>\<open>INITIAL_LOWER_BOUND is not None and INITIAL_UPPER_BOUND is not None\<close> on the
  local names, left to right with Python's short circuit.
\<close>

definition bounds_located :: "main_locals \<Rightarrow> error + bool" where
  "bounds_located l =
     (case local_INITIAL_LOWER_BOUND l of
        None \<Rightarrow> Inl UnboundLocalError
      | Some None \<Rightarrow> Inr False
      | Some (Some lower) \<Rightarrow>
          (case local_INITIAL_UPPER_BOUND l of
             None \<Rightarrow> Inl UnboundLocalError
           | Some upper \<Rightarrow> Inr (upper \<noteq> None)))"

text \<open>
  The loop of \<open>main\<close> over \<open>args.files\<close>.  An exception ends the loop (the handler
  logs and raises again; \<open>sys.exit\<close> is not caught by it).  The result is the exception,
  if any, with the file system and the module-level names as they are then.
\<close>

fun main_loop ::
  "globals \<Rightarrow> main_locals \<Rightarrow> fs \<Rightarrow> args \<Rightarrow> path list \<Rightarrow> error option \<times> fs \<times> globals" where
  "main_loop g l files a [] = (None, files, g)"
| "main_loop g l files a (f # rest) =
     (let a1 = a\<lparr>arg_cwd := dirname f, arg_filename := f\<rparr> in
      case read_nsihdr g files f of
        Inl e \<Rightarrow> (Some e, files, g)
      | Inr (project_metadata, g1) \<Rightarrow>
     (let l1 = l\<lparr>local_TARGET_LOWER_BOUND := Some (Some (Fin 0)),
                 local_TARGET_UPPER_BOUND :=
                   Some (Some (Fin (2 ^ md_bit_depth project_metadata - 1)))\<rparr>;
          a2 = a1\<lparr>arg_output :=
                    path_join (arg_cwd a1)
                      (basename (splitext_root (arg_filename a1)) @ ''.raw'')\<rparr>
      in if exists files (arg_output a2) \<and> isfile files (arg_output a2) \<and> arg_force a2 = False
         then (Some (SystemExit 0), files, g1)
         else
         case bounds_located l1 of
           Inl e \<Rightarrow> (Some e, files, g1)
         | Inr located \<Rightarrow>
         case (if located then Inr g1 else set_initial_bounds g1 files project_metadata) of
           Inl e \<Rightarrow> (Some e, files, g1)
         | Inr g2 \<Rightarrow>
         case process g2 files a2 project_metadata of
           (Some e, files1) \<Rightarrow> (Some e, files1, g2)
         | (None, files1) \<Rightarrow>
             main_loop g2
               \<lparr>local_INITIAL_LOWER_BOUND = Some None, local_INITIAL_UPPER_BOUND = Some None,
                local_TARGET_LOWER_BOUND = Some None, local_TARGET_UPPER_BOUND = Some None\<rparr>
               (write_metadata g2 files1 a2 project_metadata) a2 rest))"

definition main :: "globals \<Rightarrow> fs \<Rightarrow> args \<Rightarrow> error option \<times> fs \<times> globals" where
  "main g files a = main_loop g unbound_locals files a (arg_files a)"
section \<open>Properties of the rescaler over exact arithmetic\<close>



text \<open>
  C10 (monotonicity).  Over the reals, with \<open>a < b\<close> and \<open>c \<le> d\<close>, \<open>scale\<close> is
  monotone in its first argument, and strictly increasing when \<open>c < d\<close>.
\<close>

theorem scale_mono:
  fixes a b c d x y :: real
  assumes "a < b" and "c \<le> d"
  shows "(x \<le> y \<longrightarrow> scale x a b c d \<le> scale y a b c d)
       \<and> (c < d \<longrightarrow> x < y \<longrightarrow> scale x a b c d < scale y a b c d)"
proof (intro conjI impI)
  assume xy: "x \<le> y"
  from assms xy have q: "(x - a) / (b - a) \<le> (y - a) / (b - a)"
    by (simp add: divide_right_mono)
  from assms have "0 \<le> d - c" by simp
  with q have "(x - a) / (b - a) * (d - c) \<le> (y - a) / (b - a) * (d - c)"
    by (rule mult_right_mono)
  then show "scale x a b c d \<le> scale y a b c d"
    unfolding scale_def by simp
next
  assume cd: "c < d" and xy: "x < y"
  from assms xy have q: "(x - a) / (b - a) < (y - a) / (b - a)"
    by (simp add: divide_strict_right_mono)
  from cd have "0 < d - c" by simp
  with q have "(x - a) / (b - a) * (d - c) < (y - a) / (b - a) * (d - c)"
    by (rule mult_strict_right_mono)
  then show "scale x a b c d < scale y a b c d"
    unfolding scale_def by simp
qed

theorem scale_mono_witness:
  "(0 :: real) < 255 \<and> (0 :: real) \<le> 65535 \<and> (1 :: real) \<le> 2
     \<and> scale 1 0 255 0 (65535 :: real) \<le> scale 2 0 255 0 65535
     \<and> (0 :: real) < 65535 \<and> (1 :: real) < 2
     \<and> scale 1 0 255 0 (65535 :: real) < scale 2 0 255 0 65535"
  using scale_mono [of 0 255 0 65535 1 2] by simp



section \<open>Decoding and reductions\<close>


lemma f32_magnitude_bound:
  assumes e: "e < 255" and m: "m < 2 ^ 23"
  shows "0 \<le> f32_magnitude e m \<and> f32_magnitude e m \<le> F32_MAX"
proof
  show "0 \<le> f32_magnitude e m" by (simp add: f32_magnitude_def)
  have s: "2 ^ 23 + m \<le> 2 ^ 24 - 1" using m by simp
  show "f32_magnitude e m \<le> F32_MAX"
  proof (cases "e = 0")
    case True
    have "real m / 2 ^ 149 \<le> real m" by (simp add: divide_le_eq)
    also have "\<dots> \<le> real (2 ^ 24 - 1)" using s by (simp only: of_nat_le_iff)
    also have "\<dots> \<le> F32_MAX" by (simp add: F32_MAX_def)
    finally show ?thesis using True by (simp add: f32_magnitude_def)
  next
    case nz: False
    show ?thesis
    proof (cases "150 \<le> e")
      case True
      from e have "e - 150 \<le> 104" by simp
      then have "(2::nat) ^ (e - 150) \<le> 2 ^ 104" by (rule power_increasing) simp
      with s have "(2 ^ 23 + m) * 2 ^ (e - 150) \<le> (2 ^ 24 - 1) * (2::nat) ^ 104"
        by (rule mult_le_mono)
      then have "real ((2 ^ 23 + m) * 2 ^ (e - 150)) \<le> real ((2 ^ 24 - 1) * (2::nat) ^ 104)"
        by (simp only: of_nat_le_iff)
      also have "\<dots> = F32_MAX" by (simp add: F32_MAX_def)
      finally show ?thesis using True nz by (simp add: f32_magnitude_def)
    next
      case False
      have "real (2 ^ 23 + m) / 2 ^ (150 - e) \<le> real (2 ^ 23 + m)"
        by (simp add: divide_le_eq)
      also have "\<dots> \<le> real (2 ^ 24 - 1)" using s by (simp only: of_nat_le_iff)
      also have "\<dots> \<le> F32_MAX" by (simp add: F32_MAX_def)
      finally show ?thesis using False nz by (simp add: f32_magnitude_def)
    qed
  qed
qed

lemma decode_f32_bound:
  assumes "decode_f32 b0 b1 b2 b3 = Fin r"
  shows "\<bar>r\<bar> \<le> F32_MAX"
proof -
  define n where "n = unat b0 + 256 * unat b1 + 65536 * unat b2 + 16777216 * unat b3"
  define e where "e = (n div 2 ^ 23) mod 256"
  define m where "m = n mod 2 ^ 23"
  have m: "m < 2 ^ 23" by (simp add: m_def)
  have e: "e < 256" by (simp add: e_def)
  have d: "decode_f32 b0 b1 b2 b3 =
      (if e = 255 then (if m = 0 then (if n div 2 ^ 31 = 1 then NInf else PInf) else NaN)
         else Fin (if n div 2 ^ 31 = 1 then - f32_magnitude e m else f32_magnitude e m))"
    by (simp only: decode_f32_def Let_def n_def e_def m_def)
  from assms d have ne: "e \<noteq> 255" by (auto split: if_splits)
  with assms d have r: "\<bar>r\<bar> = \<bar>f32_magnitude e m\<bar>" by (auto split: if_splits)
  from e ne have "e < 255" by simp
  from f32_magnitude_bound [OF this m] r show ?thesis by simp
qed

lemma f32_items_append:
  "length xs mod 4 = 0 \<Longrightarrow> f32_items (xs @ ys) = f32_items xs @ f32_items ys"
  by (induction xs rule: f32_items.induct) simp_all

lemma foldl_np_minimum: "foldl np_minimum (Fin a) (map Fin rs) = Fin (foldl min a rs)"
  by (induction rs arbitrary: a) (auto simp: np_minimum_def isnan_def min_def)

lemma foldl_np_maximum: "foldl np_maximum (Fin a) (map Fin rs) = Fin (foldl max a rs)"
  by (induction rs arbitrary: a) (auto simp: np_maximum_def isnan_def max_def)

lemma foldl_min_Min: "foldl min (a::real) rs = Min (insert a (set rs))"
proof (induction rs arbitrary: a)
  case Nil
  then show ?case by simp
next
  case (Cons x rs)
  have "Min (insert (min a x) (set rs)) = Min (insert a (insert x (set rs)))"
    by (cases "set rs = {}") (simp_all add: min.assoc)
  with Cons show ?case by simp
qed

lemma foldl_max_Max: "foldl max (a::real) rs = Max (insert a (set rs))"
proof (induction rs arbitrary: a)
  case Nil
  then show ?case by simp
next
  case (Cons x rs)
  have "Max (insert (max a x) (set rs)) = Max (insert a (insert x (set rs)))"
    by (cases "set rs = {}") (simp_all add: max.assoc)
  with Cons show ?case by simp
qed


lemma all_finite_map_Fin: "\<forall>x \<in> set xs. is_finite x \<Longrightarrow> xs = map Fin (map fval xs)"
proof (induction xs)
  case Nil
  then show ?case by simp
next
  case (Cons x xs)
  then show ?case by (cases x) simp_all
qed

lemma amin_finite:
  assumes "xs \<noteq> []" and "\<forall>x \<in> set xs. is_finite x"
  shows "amin xs = Inr (Fin (Min (fval ` set xs)))"
proof -
  from assms(1) obtain x r where xs: "xs = x # r" by (cases xs) auto
  from assms(2) xs obtain a where x: "x = Fin a" by (cases x) auto
  from assms(2) xs have r: "r = map Fin (map fval r)" by (intro all_finite_map_Fin) simp
  have "foldl np_minimum (Fin a) (map Fin (map fval r)) = Fin (Min (insert a (set (map fval r))))"
    by (simp only: foldl_np_minimum foldl_min_Min)
  with r have "foldl np_minimum x r = Fin (Min (insert a (fval ` set r)))"
    using x by simp
  then show ?thesis by (simp add: amin_def xs x)
qed

lemma amax_finite:
  assumes "xs \<noteq> []" and "\<forall>x \<in> set xs. is_finite x"
  shows "amax xs = Inr (Fin (Max (fval ` set xs)))"
proof -
  from assms(1) obtain x r where xs: "xs = x # r" by (cases xs) auto
  from assms(2) xs obtain a where x: "x = Fin a" by (cases x) auto
  from assms(2) xs have r: "r = map Fin (map fval r)" by (intro all_finite_map_Fin) simp
  have "foldl np_maximum (Fin a) (map Fin (map fval r)) = Fin (Max (insert a (set (map fval r))))"
    by (simp only: foldl_np_maximum foldl_max_Max)
  with r have "foldl np_maximum x r = Fin (Max (insert a (fval ` set r)))"
    using x by simp
  then show ?thesis by (simp add: amax_def xs x)
qed

lemma f32_items_nonempty: "4 \<le> length bs \<Longrightarrow> f32_items bs \<noteq> []"
  by (induction bs rule: f32_items.induct) simp_all

lemma range_loop_finite:
  assumes "0 < n" and "n mod 4 = 0"
  shows "length rest mod 4 = 0 \<Longrightarrow> \<forall>x \<in> set (f32_items rest). is_finite x \<Longrightarrow>
         range_loop n rest (Fin a) (Fin b) =
           Inr (Fin (Min (insert a (fval ` set (f32_items rest)))),
                Fin (Max (insert b (fval ` set (f32_items rest)))))"
proof (induction "length rest" arbitrary: rest a b rule: less_induct)
  case less
  show ?case
  proof (cases "rest = []")
    case True
    then show ?thesis by (subst range_loop.simps) simp
  next
    case False
    define buffer where "buffer = take n rest"
    define rest' where "rest' = drop n rest"
    have split: "rest = buffer @ rest'" by (simp add: buffer_def rest'_def)
    from False assms(1) have bne: "buffer \<noteq> []" by (simp add: buffer_def)
    from assms(2) less.prems(1) have bl: "length buffer mod 4 = 0"
      by (simp add: buffer_def min_def)
    with bne have "4 \<le> length buffer" by (cases buffer) (auto simp: mod_eq_0_iff_dvd dest: dvd_imp_le)
    then have cne: "f32_items buffer \<noteq> []" by (rule f32_items_nonempty)
    have items: "f32_items rest = f32_items buffer @ f32_items rest'"
      using bl split f32_items_append by metis
    from less.prems(2) items have cfin: "\<forall>x \<in> set (f32_items buffer). is_finite x"
      and rfin: "\<forall>x \<in> set (f32_items rest'). is_finite x" by simp_all
    have rl: "length rest' mod 4 = 0"
      using less.prems(1) assms(2) by (simp add: rest'_def mod_eq_0_iff_dvd)
    have shorter: "length rest' < length rest"
      using False assms(1) by (simp add: rest'_def)
    let ?C = "fval ` set (f32_items buffer)"
    let ?R = "fval ` set (f32_items rest')"
    have Cne: "?C \<noteq> {}" using cne by simp
    have step: "range_loop n rest (Fin a) (Fin b) =
        range_loop n rest' (Fin (min a (Min ?C))) (Fin (max b (Max ?C)))"
      using bne bl
      by (subst range_loop.simps)
         (simp add: Let_def buffer_def [symmetric] rest'_def [symmetric] frombuffer_f32_def
            amin_finite [OF cne cfin] amax_finite [OF cne cfin])
    have ih: "range_loop n rest' (Fin (min a (Min ?C))) (Fin (max b (Max ?C))) =
        Inr (Fin (Min (insert (min a (Min ?C)) ?R)), Fin (Max (insert (max b (Max ?C)) ?R)))"
      by (rule less.hyps [OF shorter rl rfin])
    have mn: "Min (insert (min a (Min ?C)) ?R) = Min (insert a (?C \<union> ?R))"
      using Cne by (cases "?R = {}") (simp_all add: Min_Un min.assoc min.commute)
    have mx: "Max (insert (max b (Max ?C)) ?R) = Max (insert b (?C \<union> ?R))"
      using Cne by (cases "?R = {}") (simp_all add: Max_Un max.assoc max.commute)
    show ?thesis
      by (simp only: step ih mn mx items set_append image_Un)
  qed
qed


lemma f32_items_bounded:
  "Fin r \<in> set (f32_items bs) \<Longrightarrow> \<bar>r\<bar> \<le> F32_MAX"
  by (induction bs rule: f32_items.induct) (auto dest: decode_f32_bound [OF sym])

lemma finite_items_bounded:
  assumes "\<forall>x \<in> set (f32_items bs). is_finite x" and "v \<in> fval ` set (f32_items bs)"
  shows "- F32_MAX \<le> v \<and> v \<le> F32_MAX"
proof -
  from assms(2) obtain x where x: "x \<in> set (f32_items bs)" and v: "v = fval x" by auto
  from assms(1) x obtain r where r: "x = Fin r" by (cases x) auto
  from x r have "\<bar>r\<bar> \<le> F32_MAX" by (auto dest: f32_items_bounded)
  with v r show ?thesis by (simp add: abs_le_iff)
qed

lemma scan_finite:
  assumes raw: "files fp = Some (Raw bytes)"
    and ne: "bytes \<noteq> []" and len: "length bytes mod 4 = 0"
    and fin: "\<forall>x \<in> set (f32_items bytes). is_finite x"
    and n: "0 < n" "n mod 4 = 0"
  shows "find_float_range files fp (Some n) =
           Inr (Fin (Min (fval ` set (f32_items bytes))), Fin (Max (fval ` set (f32_items bytes))))"
proof -
  let ?S = "fval ` set (f32_items bytes)"
  from ne len have "4 \<le> length bytes"
    by (cases bytes) (auto simp: mod_eq_0_iff_dvd dest: dvd_imp_le)
  then have "f32_items bytes \<noteq> []" by (rule f32_items_nonempty)
  then have Sne: "?S \<noteq> {}" by simp
  have Sfin: "finite ?S" by simp
  have bnd: "\<And>v. v \<in> ?S \<Longrightarrow> - F32_MAX \<le> v \<and> v \<le> F32_MAX"
    using finite_items_bounded [OF fin] by blast
  have "Min ?S \<in> ?S" using Sfin Sne by (rule Min_in)
  then have "Min ?S \<le> F32_MAX" using bnd by blast
  then have mn: "Min (insert F32_MAX ?S) = Min ?S"
    using Sne Sfin by (subst Min_insert) (simp_all add: min_absorb2)
  have "Max ?S \<in> ?S" using Sfin Sne by (rule Max_in)
  then have "- F32_MAX \<le> Max ?S" using bnd by blast
  then have mx: "Max (insert (- F32_MAX) ?S) = Max ?S"
    using Sne Sfin by (subst Max_insert) (simp_all add: max_absorb2)
  show ?thesis
    by (simp add: find_float_range_def raw range_loop_finite [OF n len fin] mn mx)
qed



lemma list_all_finite: "list_all is_finite xs \<Longrightarrow> \<forall>x \<in> set xs. is_finite x"
  by (simp add: list_all_iff)

section \<open>Properties of the Range Scanner\<close>

text \<open>
  C3 (chunk-size invariance), amended to finite samples.  For a file that holds a
  non-empty stream of float32 samples, none of them NaN or an infinity, and for any two
  chunk sizes \<open>n\<close> and \<open>m\<close> that are positive multiples of 4, \<open>find_float_range\<close>
  returns the minimum and the maximum over all samples of the stream; in particular chunk
  sizes \<open>n\<close> and \<open>2 * n\<close> give the same pair.
\<close>

theorem scan_chunk_invariant:
  assumes "files fp = Some (Raw bytes)"
    and "bytes \<noteq> []" and "length bytes mod 4 = 0"
    and "list_all is_finite (f32_items bytes)"
    and "0 < n" and "n mod 4 = 0" and "0 < m" and "m mod 4 = 0"
  shows "find_float_range files fp (Some n) =
           Inr (Fin (Min (fval ` set (f32_items bytes))), Fin (Max (fval ` set (f32_items bytes))))
       \<and> find_float_range files fp (Some m) = find_float_range files fp (Some n)
       \<and> find_float_range files fp (Some (2 * n)) = find_float_range files fp (Some n)"
proof -
  note fin = list_all_finite [OF assms(4)]
  have n2: "0 < 2 * n" "(2 * n) mod 4 = 0" using assms(5,6) by auto
  have a: "find_float_range files fp (Some n) =
      Inr (Fin (Min (fval ` set (f32_items bytes))), Fin (Max (fval ` set (f32_items bytes))))"
    using assms(1-3) fin assms(5,6) by (rule scan_finite)
  have b: "find_float_range files fp (Some m) =
      Inr (Fin (Min (fval ` set (f32_items bytes))), Fin (Max (fval ` set (f32_items bytes))))"
    using assms(1-3) fin assms(7,8) by (rule scan_finite)
  have c: "find_float_range files fp (Some (2 * n)) =
      Inr (Fin (Min (fval ` set (f32_items bytes))), Fin (Max (fval ` set (f32_items bytes))))"
    using assms(1-3) fin n2 by (rule scan_finite)
  show ?thesis by (simp only: a b c)
qed

theorem scan_chunk_invariant_witness:
  "find_float_range [''v.raw'' \<mapsto> Raw [0, 0, 0x80, 0x3F, 0, 0, 0, 0xC0]] ''v.raw'' (Some 4)
     = Inr (Fin (- 2), Fin 1)
   \<and> find_float_range [''v.raw'' \<mapsto> Raw [0, 0, 0x80, 0x3F, 0, 0, 0, 0xC0]] ''v.raw'' (Some 8)
     = Inr (Fin (- 2), Fin 1)"
  using scan_chunk_invariant [of "[''v.raw'' \<mapsto> Raw [0, 0, 0x80, 0x3F, 0, 0, 0, 0xC0]]"
      "''v.raw''" "[0, 0, 0x80, 0x3F, 0, 0, 0, 0xC0]" 4 8]
  by (simp add: decode_f32_def f32_magnitude_def)

text \<open>
  As stated for every float32 stream, C3 fails.  The stream \<open>[NaN, 1.0]\<close> scanned one
  sample at a time gives \<open>(1.0, 1.0)\<close>: the NaN chunk loses both comparisons and the
  second chunk sets both bounds.  Scanned in one chunk of two samples the chunk's minimum
  and maximum are NaN, no comparison succeeds, and the initial bounds come back.  The
  one-sample stream \<open>[+inf]\<close> gives the minimum \<open>F32_MAX\<close>, which is not a sample.
\<close>

theorem scan_nan_counterexample:
  "find_float_range [''v.raw'' \<mapsto> Raw [0, 0, 0xC0, 0x7F, 0, 0, 0x80, 0x3F]] ''v.raw'' (Some 4)
     = Inr (Fin 1, Fin 1)
   \<and> find_float_range [''v.raw'' \<mapsto> Raw [0, 0, 0xC0, 0x7F, 0, 0, 0x80, 0x3F]] ''v.raw'' (Some 8)
     = Inr (Fin F32_MAX, Fin (- F32_MAX))
   \<and> find_float_range [''v.raw'' \<mapsto> Raw [0, 0, 0x80, 0x7F]] ''v.raw'' (Some 4)
     = Inr (Fin F32_MAX, PInf)"
  by (simp add: find_float_range_def range_loop.simps frombuffer_f32_def decode_f32_def
        f32_magnitude_def amin_def amax_def np_minimum_def np_maximum_def isnan_def F32_MAX_def)



text \<open>
  C8 (empty stream), amended.  On an empty file \<open>find_float_range\<close> raises nothing:
  the loop body never runs and the initial bounds are returned, the pair
  \<open>(F32_MAX, - F32_MAX)\<close>, whatever the chunk size.
\<close>

theorem scan_empty_returns_sentinels:
  assumes "files fp = Some (Raw [])"
  shows "find_float_range files fp buffer_size = Inr (Fin F32_MAX, Fin (- F32_MAX))"
  using assms by (simp add: find_float_range_def range_loop.simps)

theorem scan_empty_returns_sentinels_witness:
  "[''e.raw'' \<mapsto> Raw []] ''e.raw'' = Some (Raw [])
   \<and> find_float_range [''e.raw'' \<mapsto> Raw []] ''e.raw'' (Some 4) = Inr (Fin F32_MAX, Fin (- F32_MAX))"
  using scan_empty_returns_sentinels [of "[''e.raw'' \<mapsto> Raw []]" "''e.raw''" "Some 4"]
  by simp

text \<open>
  As stated (the scanner fails on an empty stream and never returns a range), C8 fails: the
  call returns a pair.
\<close>

theorem scan_empty_counterexample:
  "find_float_range [''e.raw'' \<mapsto> Raw []] ''e.raw'' None = Inr (Fin F32_MAX, Fin (- F32_MAX))"
  by (simp add: find_float_range_def range_loop.simps)

text \<open>
  C9 (default chunk size), amended.  Without a chunk size the scanner uses
  \<open>size div 100\<close> bytes: the largest whole number of bytes that is at most 1% of the
  stream size.  It is at least 4 bytes exactly when the stream has at least 400 bytes.
\<close>

theorem default_buffer_size_floor:
  "find_float_range files fp None =
     (case files fp of
        Some (Raw bytes) \<Rightarrow> find_float_range files fp (Some (default_buffer_size (length bytes)))
      | Some (Dat d) \<Rightarrow> Inl FileNotFoundError
      | Some (Hdr h) \<Rightarrow> Inl FileNotFoundError
      | Some (RangeRecord lo hi) \<Rightarrow> Inl FileNotFoundError
      | None \<Rightarrow> Inl FileNotFoundError)
   \<and> 100 * default_buffer_size n \<le> n \<and> n < 100 * default_buffer_size n + 100
   \<and> (4 \<le> default_buffer_size n) = (400 \<le> n)"
  by (auto simp: find_float_range_def default_buffer_size_def split: option.splits entry.splits)

text \<open>
  As stated (never below one encoding unit), C9 fails: a stream of 40 bytes gets the chunk
  size 0, and then an 8-byte stream of two samples is not read at all.
\<close>

theorem default_buffer_size_counterexample:
  "default_buffer_size 40 = 0
   \<and> find_float_range [''v.raw'' \<mapsto> Raw [0, 0, 0x80, 0x3F, 0, 0, 0, 0xC0]] ''v.raw'' None
       = Inr (Fin F32_MAX, Fin (- F32_MAX))"
  by (simp add: default_buffer_size_def find_float_range_def range_loop.simps)


section \<open>Properties of the Volume Converter\<close>



lemma convert_Converted_D:
  assumes "convert K files fp dat_fp file_format = (Inr Converted, files')"
  shows "\<exists>d bit_depth written bytes.
           dat_read files dat_fp = Inr d
         \<and> determine_bit_depth files fp (xdim d, ydim d, zdim d) = Inr bit_depth
         \<and> file_format \<noteq> bit_depth
         \<and> files (output_path fp file_format) = None
         \<and> files fp = Some (Raw bytes)
         \<and> files' = dat_write (files(output_path fp file_format \<mapsto> Raw written))
                       (dat_output_path dat_fp file_format) (xdim d, ydim d, zdim d)
                       (x_thickness d, y_thickness d, z_thickness d) file_format (model d)"
proof -
  from assms obtain d where rd: "dat_read files dat_fp = Inr d"
    by (cases "dat_read files dat_fp") (simp_all add: convert_def)
  from assms rd obtain bit_depth where
    bd: "determine_bit_depth files fp (xdim d, ydim d, zdim d) = Inr bit_depth"
    by (cases "determine_bit_depth files fp (xdim d, ydim d, zdim d)") (simp_all add: convert_def)
  from assms rd bd have ne: "file_format \<noteq> bit_depth"
    by (auto simp: convert_def)
  from assms rd bd ne have free: "files (output_path fp file_format) = None"
    by (auto simp: convert_def Let_def exists_def split: if_splits)
  from assms rd bd ne free obtain bytes where raw: "files fp = Some (Raw bytes)"
    by (simp add: convert_def Let_def exists_def split: sum.splits prod.splits option.splits entry.splits)
  from assms rd bd ne free raw obtain written where
    "files' = dat_write (files(output_path fp file_format \<mapsto> Raw written))
                       (dat_output_path dat_fp file_format) (xdim d, ydim d, zdim d)
                       (x_thickness d, y_thickness d, z_thickness d) file_format (model d)"
    by (simp add: convert_def Let_def exists_def split: sum.splits prod.splits option.splits) blast
  with rd bd ne free raw show ?thesis by blast
qed



lemma convert_exists_skip:
  assumes "dat_read files dat_fp = Inr d"
    and "determine_bit_depth files fp (xdim d, ydim d, zdim d) = Inr bit_depth"
    and "exists files (output_path fp file_format)"
  shows "convert to_float32 files fp dat_fp file_format
           = (Inr (if file_format = bit_depth then Skipping_already_desired_format
                   else Skipping_file_already_exists), files)"
  using assms by (simp add: convert_def)



lemma dat_read_after_write:
  assumes "dat_read files dat_fp = Inr d" and "files op = None"
  shows "\<exists>d'. dat_read (dat_write (files(op \<mapsto> Raw written)) dat_op (xdim d, ydim d, zdim d) th ff md)
                 dat_fp = Inr d'
              \<and> xdim d' = xdim d \<and> ydim d' = ydim d \<and> zdim d' = zdim d"
proof -
  from assms have "dat_fp \<noteq> op"
    by (auto simp: dat_read_def)
  with assms(1) show ?thesis
    by (cases th) (auto simp: dat_read_def dat_write_def)
qed


lemma determine_bit_depth_cong:
  "files' fp = files fp \<Longrightarrow> determine_bit_depth files' fp dims = determine_bit_depth files fp dims"
  by (simp add: determine_bit_depth_def)
lemma convert_rerun:
  assumes run: "convert K files fp dat_fp file_format = (Inr Converted, files')"
    and src: "fp \<noteq> dat_output_path dat_fp file_format"
  shows "convert K files' fp dat_fp file_format = (Inr Skipping_file_already_exists, files')"
proof -
  let ?op = "output_path fp file_format"
  let ?dat_op = "dat_output_path dat_fp file_format"
  from convert_Converted_D [OF run] obtain d bit_depth written bytes where
    rd: "dat_read files dat_fp = Inr d"
    and bd: "determine_bit_depth files fp (xdim d, ydim d, zdim d) = Inr bit_depth"
    and ne: "file_format \<noteq> bit_depth"
    and free: "files ?op = None"
    and raw: "files fp = Some (Raw bytes)"
    and files': "files' = dat_write (files(?op \<mapsto> Raw written)) ?dat_op (xdim d, ydim d, zdim d)
                       (x_thickness d, y_thickness d, z_thickness d) file_format (model d)"
    by blast
  have "\<exists>d'. dat_read files' dat_fp = Inr d'
              \<and> xdim d' = xdim d \<and> ydim d' = ydim d \<and> zdim d' = zdim d"
    unfolding files' using rd free by (rule dat_read_after_write)
  then obtain d' where
    rd': "dat_read files' dat_fp = Inr d'"
    and dims: "xdim d' = xdim d" "ydim d' = ydim d" "zdim d' = zdim d"
    by blast
  from raw free have "fp \<noteq> ?op" by auto
  with src files' have "files' fp = files fp" by (simp add: dat_write_def)
  then have "determine_bit_depth files' fp (xdim d, ydim d, zdim d)
      = determine_bit_depth files fp (xdim d, ydim d, zdim d)"
    by (rule determine_bit_depth_cong)
  with bd dims have bd': "determine_bit_depth files' fp (xdim d', ydim d', zdim d') = Inr bit_depth"
    by simp
  have ex: "exists files' ?op"
    by (simp add: files' exists_def dat_write_def)
  have "convert K files' fp dat_fp file_format
           = (Inr (if file_format = bit_depth then Skipping_already_desired_format
                   else Skipping_file_already_exists), files')"
    using rd' bd' ex by (rule convert_exists_skip)
  with ne show ?thesis by simp
qed




lemma scale_flt_finite:
  "a \<noteq> b \<Longrightarrow> scale (Fin x) (Fin a) (Fin b) (Fin c) (Fin d) = Fin (scale x a b c d)"
  by (simp add: scale_def plus_flt_def minus_flt_def times_flt_def divide_flt_def)

lemma scale_uint8_uint16: "scale (real n) 0 255 0 65535 = real (257 * n)"
  by (simp add: scale_def)

lemma truncate_of_nat: "truncate_toward_zero (real k) = int k"
  by (simp add: truncate_toward_zero_def)

lemma astype_uint_of_nat: "k < 2 ^ w \<Longrightarrow> w \<le> 31 \<Longrightarrow> astype_uint w (Fin (real k)) = k"
proof -
  assume k: "k < 2 ^ w" and w: "w \<le> 31"
  have "(2::nat) ^ w \<le> 2 ^ 31" using w by (rule power_increasing) simp
  with k have "k < 2 ^ 31" by simp
  then have "int k < 2 ^ 31" by (metis of_nat_less_iff of_nat_numeral of_nat_power)
  moreover have "int k mod 2 ^ w = int k"
    using k by (metis mod_less of_nat_mod of_nat_numeral of_nat_power)
  ultimately show ?thesis by (simp add: truncate_of_nat Let_def)
qed

lemma round_uint8_uint16: "nat (round (real n / 255 * 65535)) = 257 * n"
proof -
  have "real n / 255 * 65535 = real (257 * n)" by simp
  then have "round (real n / 255 * 65535) = int (257 * n)"
    by (simp only: round_of_nat)
  then show ?thesis by (simp only: nat_int)
qed

lemma unat_byte_less: "unat (b :: byte) < 256"
  using unsigned_less [of b, where 'a = nat] by simp

lemma convert_chunk_uint8_uint16:
  "convert_chunk K ''uint8'' ''uint16'' (Fin 0) (Fin 255) (Fin 0) (Fin 65535) buffer
     = Inr (concat (map (\<lambda>b. tobytes_uint16 (257 * unat b)) buffer))"
proof -
  have s: "\<And>b::byte. astype_uint 16 (scale (Fin (real (unat b))) (Fin 0) (Fin 255) (Fin 0) (Fin 65535))
      = 257 * unat b"
  proof -
    fix b :: byte
    have "257 * unat b < 2 ^ 16" using unat_byte_less [of b] by simp
    then have "astype_uint 16 (Fin (real (257 * unat b))) = 257 * unat b"
      by (rule astype_uint_of_nat) simp
    then show "astype_uint 16 (scale (Fin (real (unat b))) (Fin 0) (Fin 255) (Fin 0) (Fin 65535))
      = 257 * unat b"
      by (simp only: scale_flt_finite [of 0 255, simplified] scale_uint8_uint16)
  qed
  show ?thesis
    by (simp add: convert_chunk_def frombuffer_def Let_def comp_def s del: of_nat_unat)
qed

lemma convert_loop_uint8_uint16:
  assumes "0 < n"
  shows "convert_loop K ''uint8'' ''uint16'' (Fin 0) (Fin 255) (Fin 0) (Fin 65535) n rest written
     = (None, written @ concat (map (\<lambda>b. tobytes_uint16 (257 * unat b)) rest))"
proof (induction "length rest" arbitrary: rest written rule: less_induct)
  case less
  show ?case
  proof (cases "rest = []")
    case True
    then show ?thesis by (subst convert_loop.simps) simp
  next
    case False
    with assms have shorter: "length (drop n rest) < length rest" by simp
    from False assms have ne: "take n rest \<noteq> []" by simp
    have "convert_loop K ''uint8'' ''uint16'' (Fin 0) (Fin 255) (Fin 0) (Fin 65535) n rest written
      = convert_loop K ''uint8'' ''uint16'' (Fin 0) (Fin 255) (Fin 0) (Fin 65535) n (drop n rest)
          (written @ concat (map (\<lambda>b. tobytes_uint16 (257 * unat b)) (take n rest)))"
      using ne by (subst convert_loop.simps) (simp add: Let_def convert_chunk_uint8_uint16)
    also have "\<dots> = (None, (written @ concat (map (\<lambda>b. tobytes_uint16 (257 * unat b)) (take n rest)))
        @ concat (map (\<lambda>b. tobytes_uint16 (257 * unat b)) (drop n rest)))"
      by (rule less.hyps [OF shorter])
    also have "\<dots> = (None, written @ concat (map (\<lambda>b. tobytes_uint16 (257 * unat b)) (take n rest @ drop n rest)))"
      by (simp only: map_append concat_append append_assoc)
    finally show ?thesis by simp
  qed
qed



lemma dat_record_update_format:
  "\<lparr>xdim = xdim d, ydim = ydim d, zdim = zdim d, x_thickness = x_thickness d,
     y_thickness = y_thickness d, z_thickness = z_thickness d, format = ff, model = model d\<rparr>
   = d\<lparr>format := ff\<rparr>"
  by (cases d) simp

lemma u16_items_tobytes:
  "\<forall>v \<in> set vs. v < 65536 \<Longrightarrow> u16_items (concat (map tobytes_uint16 vs)) = vs"
proof (induction vs)
  case Nil
  then show ?case by simp
next
  case (Cons v vs)
  then have v: "v < 65536" by simp
  then have hi: "v div 256 < 256" by simp
  have lo: "v mod 256 < 256" by simp
  have "unat (of_nat (v mod 256) :: byte) = v mod 256"
    by (rule of_nat_inverse [OF refl]) simp
  moreover have "unat (of_nat (v div 256) :: byte) = v div 256"
    by (rule of_nat_inverse [OF refl]) (use hi in simp)
  ultimately have "unat (of_nat (v mod 256) :: byte) + 256 * unat (of_nat (v div 256) :: byte) = v"
    by simp
  with Cons show ?case by (simp add: tobytes_uint16_def)
qed

lemma convert_uint8_uint16_run:
  assumes rd: "dat_read files dat_fp = Inr d"
    and bd: "determine_bit_depth files fp (xdim d, ydim d, zdim d) = Inr ''uint8''"
    and raw: "files fp = Some (Raw bytes)"
    and free: "\<not> exists files (output_path fp ''uint16'')"
  shows "convert to_float32 files fp dat_fp ''uint16''
             = (Inr Converted,
                files(output_path fp ''uint16'' \<mapsto>
                        Raw (concat (map (\<lambda>b. tobytes_uint16 (257 * unat b)) bytes)),
                      dat_output_path dat_fp ''uint16'' \<mapsto> Dat (d\<lparr>format := ''uint16''\<rparr>)))"
proof -
  let ?out = "concat (map (\<lambda>b. tobytes_uint16 (257 * unat b)) bytes)"
  from bd raw have pos: "0 < xdim d * ydim d"
    by (auto simp: determine_bit_depth_def Let_def split: if_splits)
  then have loop: "convert_loop to_float32 ''uint8'' ''uint16'' (Fin 0) (Fin 255) (Fin 0) (Fin 65535)
      (xdim d * ydim d) bytes [] = (None, ?out)"
    by (simp add: convert_loop_uint8_uint16)
  show ?thesis
    using free
    by (simp add: convert_def rd bd raw itemsize_def iinfo_max_def loop dat_write_def
          dat_record_update_format)
qed

text \<open>
  C2 (UInt8 to UInt16).  For a volume whose inferred encoding is \<open>uint8\<close> and whose
  output path is free, \<open>convert\<close> to \<open>uint16\<close> writes, for every input sample
  \<open>v\<close> and in the same position, the 16-bit sample \<open>round (v / 255 * 65535)\<close>
  (little-endian), and writes a DAT descriptor that differs from the source descriptor in
  its format only, which is \<open>uint16\<close>: dimensions and thickness are the source's.
\<close>

theorem convert_uint8_to_uint16:
  assumes "dat_read files dat_fp = Inr d"
    and "determine_bit_depth files fp (xdim d, ydim d, zdim d) = Inr ''uint8''"
    and "files fp = Some (Raw bytes)"
    and "\<not> exists files (output_path fp ''uint16'')"
  shows "convert to_float32 files fp dat_fp ''uint16''
           = (Inr Converted,
              files(output_path fp ''uint16'' \<mapsto>
                      Raw (concat (map (\<lambda>b. tobytes_uint16 (nat (round (real (unat b) / 255 * 65535))))
                                    bytes)),
                    dat_output_path dat_fp ''uint16'' \<mapsto> Dat (d\<lparr>format := ''uint16''\<rparr>)))
       \<and> u16_items (concat (map (\<lambda>b. tobytes_uint16 (nat (round (real (unat b) / 255 * 65535))))
                                bytes))
           = map (\<lambda>b. nat (round (real (unat b) / 255 * 65535))) bytes"
proof -
  have "concat (map (\<lambda>b. tobytes_uint16 (257 * unat b)) bytes)
      = concat (map tobytes_uint16 (map (\<lambda>b. 257 * unat b) bytes))"
    by (simp add: comp_def)
  moreover have "\<forall>v \<in> set (map (\<lambda>b. 257 * unat b) bytes). v < 65536"
  proof
    fix v assume "v \<in> set (map (\<lambda>b. 257 * unat b) bytes)"
    then obtain b :: byte where "v = 257 * unat b" by auto
    with unat_byte_less [of b] show "v < 65536" by simp
  qed
  ultimately have "u16_items (concat (map (\<lambda>b. tobytes_uint16 (257 * unat b)) bytes))
      = map (\<lambda>b. 257 * unat b) bytes"
    by (simp only: u16_items_tobytes)
  with convert_uint8_uint16_run [OF assms, of to_float32] show ?thesis
    by (simp only: round_uint8_uint16)
qed

theorem convert_uint8_to_uint16_witness:
  "convert (\<lambda>dtype buffer. [])
     [''v.raw'' \<mapsto> Raw [0, 1, 128, 255],
      ''v.dat'' \<mapsto> Dat \<lparr>xdim = 2, ydim = 2, zdim = 1, x_thickness = 1 / 2, y_thickness = 1 / 2,
                         z_thickness = 1 / 2, format = ''uint8'', model = ''DENSITY''\<rparr>]
     ''v.raw'' ''v.dat'' ''uint16''
   = (Inr Converted,
      [''v.raw'' \<mapsto> Raw [0, 1, 128, 255],
       ''v.dat'' \<mapsto> Dat \<lparr>xdim = 2, ydim = 2, zdim = 1, x_thickness = 1 / 2, y_thickness = 1 / 2,
                          z_thickness = 1 / 2, format = ''uint8'', model = ''DENSITY''\<rparr>,
       ''v-uint16.raw'' \<mapsto> Raw [0, 0, 1, 1, 128, 128, 255, 255],
       ''v-uint16.dat'' \<mapsto> Dat \<lparr>xdim = 2, ydim = 2, zdim = 1, x_thickness = 1 / 2,
                                 y_thickness = 1 / 2, z_thickness = 1 / 2, format = ''uint16'',
                                 model = ''DENSITY''\<rparr>])
   \<and> u16_items [0, 0, 1, 1, 128, 128, 255, 255] = [0, 257, 32896, 65535]"
  using convert_uint8_to_uint16 [of
      "[''v.raw'' \<mapsto> Raw [0, 1, 128, 255],
        ''v.dat'' \<mapsto> Dat \<lparr>xdim = 2, ydim = 2, zdim = 1, x_thickness = 1 / 2, y_thickness = 1 / 2,
                           z_thickness = 1 / 2, format = ''uint8'', model = ''DENSITY''\<rparr>]"
      "''v.dat''" _ "''v.raw''" "[0, 1, 128, 255]" "\<lambda>dtype buffer. []"]
  by (simp add: dat_read_def determine_bit_depth_def exists_def output_path_def dat_output_path_def
        splitext_root_def tobytes_uint16_def)



text \<open>
  C4 (same encoding).  When the encoding inferred for the volume equals the requested one,
  \<open>convert\<close> returns on the skip path with the file system as it was: no output
  volume, no DAT file, no change to an existing file, and no error.
\<close>

theorem convert_same_encoding_noop:
  assumes "dat_read files dat_fp = Inr d"
    and "determine_bit_depth files fp (xdim d, ydim d, zdim d) = Inr file_format"
  shows "convert to_float32 files fp dat_fp file_format
           = (Inr Skipping_already_desired_format, files)"
  using assms by (simp add: convert_def)

theorem convert_same_encoding_noop_witness:
  "convert (\<lambda>dtype buffer. [])
     [''v.raw'' \<mapsto> Raw [0, 1, 128, 255],
      ''v.dat'' \<mapsto> Dat \<lparr>xdim = 2, ydim = 2, zdim = 1, x_thickness = 1 / 2, y_thickness = 1 / 2,
                         z_thickness = 1 / 2, format = ''uint8'', model = ''DENSITY''\<rparr>]
     ''v.raw'' ''v.dat'' ''uint8''
   = (Inr Skipping_already_desired_format,
      [''v.raw'' \<mapsto> Raw [0, 1, 128, 255],
       ''v.dat'' \<mapsto> Dat \<lparr>xdim = 2, ydim = 2, zdim = 1, x_thickness = 1 / 2, y_thickness = 1 / 2,
                          z_thickness = 1 / 2, format = ''uint8'', model = ''DENSITY''\<rparr>])"
  using convert_same_encoding_noop [of
      "[''v.raw'' \<mapsto> Raw [0, 1, 128, 255],
        ''v.dat'' \<mapsto> Dat \<lparr>xdim = 2, ydim = 2, zdim = 1, x_thickness = 1 / 2, y_thickness = 1 / 2,
                           z_thickness = 1 / 2, format = ''uint8'', model = ''DENSITY''\<rparr>]"
      "''v.dat''" _ "''v.raw''" "''uint8''" "\<lambda>dtype buffer. []"]
  by (simp add: dat_read_def determine_bit_depth_def)

text \<open>
  C5 (never clobber).  With a readable descriptor and an inferable encoding: if the output
  path exists, \<open>convert\<close> returns on a skip path, without error and with the file
  system as it was; and after a run that converted, a second run with the same arguments
  skips and leaves every file as the first run left it (provided the DAT output path is
  not the source volume itself).
\<close>

theorem convert_never_clobbers:
  assumes "dat_read files dat_fp = Inr d"
    and "determine_bit_depth files fp (xdim d, ydim d, zdim d) = Inr bit_depth"
  shows "(exists files (output_path fp file_format) \<longrightarrow>
            convert to_float32 files fp dat_fp file_format
              = (Inr (if file_format = bit_depth then Skipping_already_desired_format
                      else Skipping_file_already_exists), files))
       \<and> (fp \<noteq> dat_output_path dat_fp file_format \<longrightarrow>
            convert to_float32 files fp dat_fp file_format = (Inr Converted, files') \<longrightarrow>
            convert to_float32 files' fp dat_fp file_format
              = (Inr Skipping_file_already_exists, files'))"
proof (intro conjI impI)
  assume "exists files (output_path fp file_format)"
  with assms show "convert to_float32 files fp dat_fp file_format
              = (Inr (if file_format = bit_depth then Skipping_already_desired_format
                      else Skipping_file_already_exists), files)"
    by (rule convert_exists_skip)
next
  assume "fp \<noteq> dat_output_path dat_fp file_format"
    and "convert to_float32 files fp dat_fp file_format = (Inr Converted, files')"
  then show "convert to_float32 files' fp dat_fp file_format
              = (Inr Skipping_file_already_exists, files')"
    by (rule convert_rerun [rotated])
qed

theorem convert_never_clobbers_witness:
  "convert (\<lambda>dtype buffer. [])
     [''v.raw'' \<mapsto> Raw [0, 1, 128, 255],
      ''v.dat'' \<mapsto> Dat \<lparr>xdim = 2, ydim = 2, zdim = 1, x_thickness = 1 / 2, y_thickness = 1 / 2,
                         z_thickness = 1 / 2, format = ''uint8'', model = ''DENSITY''\<rparr>,
      ''v-uint16.raw'' \<mapsto> Raw [7, 7]]
     ''v.raw'' ''v.dat'' ''uint16''
   = (Inr Skipping_file_already_exists,
      [''v.raw'' \<mapsto> Raw [0, 1, 128, 255],
       ''v.dat'' \<mapsto> Dat \<lparr>xdim = 2, ydim = 2, zdim = 1, x_thickness = 1 / 2, y_thickness = 1 / 2,
                          z_thickness = 1 / 2, format = ''uint8'', model = ''DENSITY''\<rparr>,
       ''v-uint16.raw'' \<mapsto> Raw [7, 7]])
   \<and> convert (\<lambda>dtype buffer. [])
     [''v.raw'' \<mapsto> Raw [0, 1, 128, 255],
      ''v.dat'' \<mapsto> Dat \<lparr>xdim = 2, ydim = 2, zdim = 1, x_thickness = 1 / 2, y_thickness = 1 / 2,
                         z_thickness = 1 / 2, format = ''uint8'', model = ''DENSITY''\<rparr>,
      ''v-uint16.raw'' \<mapsto> Raw [0, 0, 1, 1, 128, 128, 255, 255],
      ''v-uint16.dat'' \<mapsto> Dat \<lparr>xdim = 2, ydim = 2, zdim = 1, x_thickness = 1 / 2,
                                y_thickness = 1 / 2, z_thickness = 1 / 2, format = ''uint16'',
                                model = ''DENSITY''\<rparr>]
     ''v.raw'' ''v.dat'' ''uint16''
   = (Inr Skipping_file_already_exists,
     [''v.raw'' \<mapsto> Raw [0, 1, 128, 255],
      ''v.dat'' \<mapsto> Dat \<lparr>xdim = 2, ydim = 2, zdim = 1, x_thickness = 1 / 2, y_thickness = 1 / 2,
                         z_thickness = 1 / 2, format = ''uint8'', model = ''DENSITY''\<rparr>,
      ''v-uint16.raw'' \<mapsto> Raw [0, 0, 1, 1, 128, 128, 255, 255],
      ''v-uint16.dat'' \<mapsto> Dat \<lparr>xdim = 2, ydim = 2, zdim = 1, x_thickness = 1 / 2,
                                y_thickness = 1 / 2, z_thickness = 1 / 2, format = ''uint16'',
                                model = ''DENSITY''\<rparr>])"
proof -
  let ?d = "\<lparr>xdim = 2, ydim = 2, zdim = 1, x_thickness = 1 / 2, y_thickness = 1 / 2,
             z_thickness = 1 / 2, format = ''uint8'', model = ''DENSITY''\<rparr>"
  let ?files = "[''v.raw'' \<mapsto> Raw [0, 1, 128, 255], ''v.dat'' \<mapsto> Dat ?d]"
  let ?K = "\<lambda>(dtype :: string) (buffer :: byte list). [] :: byte list"
  have first: "convert ?K ?files ''v.raw'' ''v.dat'' ''uint16''
      = (Inr Converted,
         ?files(''v-uint16.raw'' \<mapsto> Raw [0, 0, 1, 1, 128, 128, 255, 255],
                ''v-uint16.dat'' \<mapsto> Dat (?d\<lparr>format := ''uint16''\<rparr>)))"
    using convert_uint8_uint16_run [of ?files "''v.dat''" ?d "''v.raw''" "[0, 1, 128, 255]" ?K]
    by (simp add: dat_read_def determine_bit_depth_def exists_def output_path_def
          dat_output_path_def splitext_root_def tobytes_uint16_def)
  have a: "convert ?K (?files(''v-uint16.raw'' \<mapsto> Raw [7, 7])) ''v.raw'' ''v.dat'' ''uint16''
      = (Inr Skipping_file_already_exists, ?files(''v-uint16.raw'' \<mapsto> Raw [7, 7]))"
    using convert_never_clobbers [of "?files(''v-uint16.raw'' \<mapsto> Raw [7, 7])" "''v.dat''" ?d
        "''v.raw''" "''uint8''" "''uint16''" ?K]
    by (simp add: dat_read_def determine_bit_depth_def exists_def output_path_def
          splitext_root_def)
  have b: "convert ?K (?files(''v-uint16.raw'' \<mapsto> Raw [0, 0, 1, 1, 128, 128, 255, 255],
                ''v-uint16.dat'' \<mapsto> Dat (?d\<lparr>format := ''uint16''\<rparr>))) ''v.raw'' ''v.dat'' ''uint16''
      = (Inr Skipping_file_already_exists,
         ?files(''v-uint16.raw'' \<mapsto> Raw [0, 0, 1, 1, 128, 128, 255, 255],
                ''v-uint16.dat'' \<mapsto> Dat (?d\<lparr>format := ''uint16''\<rparr>)))"
    using first convert_never_clobbers [of ?files "''v.dat''" ?d "''v.raw''" "''uint8''"
        "''uint16''" ?K
        "?files(''v-uint16.raw'' \<mapsto> Raw [0, 0, 1, 1, 128, 128, 255, 255],
                ''v-uint16.dat'' \<mapsto> Dat (?d\<lparr>format := ''uint16''\<rparr>))"]
    by (simp add: dat_read_def determine_bit_depth_def dat_output_path_def splitext_root_def)
  from a b show ?thesis by simp
qed


section \<open>Properties of the Slice Assembler\<close>












lemma process_existing_without_force:
  assumes "exists files (arg_output a)" and "\<not> arg_force a"
  shows "process g files a md = (Some (SystemExit 0), files)"
  using assms by (simp add: process_def isfile_def exists_def)

lemma process_existing_with_force:
  assumes "exists files (arg_output a)" and "arg_force a"
  shows "process g files a md = process g (files(arg_output a := None)) a md"
  using assms by (simp add: process_def isfile_def exists_def)

lemma main_loop_unbound:
  "fst (main_loop g unbound_locals files a (f # rest)) \<noteq> None
   \<and> fst (snd (main_loop g unbound_locals files a (f # rest))) = files"
  by (simp add: unbound_locals_def bounds_located_def Let_def split: sum.splits prod.splits)

lemma main_never_assembles:
  "fst (snd (main g files a)) = files"
proof (cases "arg_files a")
  case Nil
  then show ?thesis by (simp add: main_def)
next
  case (Cons f rest)
  then show ?thesis using main_loop_unbound [of g files a f rest] by (simp add: main_def)
qed

text \<open>
  C7 (overwrite policy of slice assembly).  \<open>process\<close> follows the policy (the two
  lemmas \<open>process_existing_without_force\<close> and \<open>process_existing_with_force\<close>), but
  \<open>main\<close> never reaches it: the test of the input bounds reads a name that is local to
  \<open>main\<close> and not yet assigned.  With the force flag set and an existing output file,
  \<open>main\<close> ends in UnboundLocalError and the file is still there, with its old bytes.
\<close>

theorem main_force_keeps_existing_output:
  "main module_globals
     [''p/scan.nsihdr'' \<mapsto> Hdr \<lparr>nsidats = [''s1.nsidat''], hdr_bit_depth = 16,
                                  hdr_dimensions = (1, 1, 1), hdr_resolution = 1 / 10,
                                  hdr_data_range = Some (- 1000, 3000)\<rparr>,
      ''p/s1.nsidat'' \<mapsto> Raw [0, 0, 0x7A, 0x44],
      ''p/scan.raw'' \<mapsto> Raw [9, 9]]
     \<lparr>arg_files = [''p/scan.nsihdr''], arg_force = True, arg_cwd = '''', arg_filename = '''',
      arg_output = ''''\<rparr>
   = (Some UnboundLocalError,
      [''p/scan.nsihdr'' \<mapsto> Hdr \<lparr>nsidats = [''s1.nsidat''], hdr_bit_depth = 16,
                                  hdr_dimensions = (1, 1, 1), hdr_resolution = 1 / 10,
                                  hdr_data_range = Some (- 1000, 3000)\<rparr>,
       ''p/s1.nsidat'' \<mapsto> Raw [0, 0, 0x7A, 0x44],
       ''p/scan.raw'' \<mapsto> Raw [9, 9]],
      \<lparr>INITIAL_LOWER_BOUND = Some (Fin (- 1000)), INITIAL_UPPER_BOUND = Some (Fin 3000),
       TARGET_LOWER_BOUND = None, TARGET_UPPER_BOUND = None\<rparr>)"
  by (simp add: main_def module_globals_def unbound_locals_def read_nsihdr_def bounds_located_def
        exists_def isfile_def dirname_def basename_def splitext_root_def path_join_def)


end
